theory Spec2Isabelle
  imports Main
begin

section \<open>Python values, exceptions and string operations\<close>

text \<open>
  The exceptions that the statements of \<^verbatim>\<open>sublib_cli.py\<close> can raise by themselves, and
  one more (\<open>LibraryError\<close>) standing for whatever the imported packages raise.
  \<open>SystemExit\<close> is kept apart from them: it is not an \<^verbatim>\<open>Exception\<close>, so the handler
  at the bottom of the script does not catch it.
\<close>

datatype exn = UnboundLocalError | AttributeError | KeyError | IndexError | OSError | LibraryError

datatype 'a result = Return 'a | Raise exn | SystemExit string

fun rbind :: "'a result \<Rightarrow> ('a \<Rightarrow> 'b result) \<Rightarrow> 'b result" where
  "rbind (Return x) f = f x"
| "rbind (Raise e) f = Raise e"
| "rbind (SystemExit m) f = SystemExit m"

text \<open>
  \<^verbatim>\<open>s.rfind(sub)\<close>: the highest index at which \<open>sub\<close> occurs in \<open>s\<close>, or \<open>-1\<close>.
  The scan goes from the right end of the string to index 0.
\<close>

definition occurs_at :: "string \<Rightarrow> string \<Rightarrow> nat \<Rightarrow> bool" where
  "occurs_at s sub i = (take (length sub) (drop i s) = sub)"

fun rfind_from :: "string \<Rightarrow> string \<Rightarrow> nat \<Rightarrow> int" where
  "rfind_from s sub 0 = (if occurs_at s sub 0 then 0 else - 1)"
| "rfind_from s sub (Suc i) =
     (if occurs_at s sub (Suc i) then int (Suc i) else rfind_from s sub i)"

definition py_rfind :: "string \<Rightarrow> string \<Rightarrow> int" where
  "py_rfind s sub = rfind_from s sub (length s)"

text \<open>
  \<^verbatim>\<open>s[:k]\<close>: a negative bound counts from the end of the string, and bounds outside
  the string are clipped.
\<close>

definition py_slice_to :: "string \<Rightarrow> int \<Rightarrow> string" where
  "py_slice_to s k =
     (if k < 0 then take (nat (int (length s) + k)) s else take (nat k) s)"

text \<open>
  \<^verbatim>\<open>s.replace(old, new)\<close>: every non-overlapping occurrence of \<open>old\<close>, found from
  the left, is replaced; an empty \<open>old\<close> matches before every character and at the end.
\<close>

function py_replace :: "string \<Rightarrow> string \<Rightarrow> string \<Rightarrow> string" where
  "py_replace s old new =
     (if old = [] then new @ concat (map (\<lambda>c. c # new) s)
      else if s = [] then []
      else if occurs_at s old 0 then new @ py_replace (drop (length old) s) old new
      else hd s # py_replace (tl s) old new)"
  by pat_completeness auto
termination
  by (relation "measure (\<lambda>(s, old, new). length s)") auto

declare py_replace.simps [simp del]

definition backslash :: string where
  "backslash = [CHR 0x5C]"

section \<open>The records of the script\<close>

text \<open>
  The dictionaries that \<^verbatim>\<open>main\<close> builds for its files have the keys
  \<^verbatim>\<open>"path"\<close>, \<^verbatim>\<open>"encoding"\<close> and, for an input file, \<^verbatim>\<open>"format"\<close>.
  The encoding is \<^verbatim>\<open>None\<close> when the detector finds none; a missing
  \<^verbatim>\<open>"format"\<close> key is \<open>None\<close> in the last field.
\<close>

record details =
  d_path :: string
  d_encoding :: "string option"
  d_format :: "string option"

subsection \<open>\<^verbatim>\<open>get_new_path\<close>\<close>

definition get_new_path :: "details \<Rightarrow> string \<Rightarrow> string" where
  "get_new_path file form =
     (let path = d_path file;
          path = py_slice_to path (py_rfind path ''.'')
      in if form \<in> set [''mpl'', ''tmp''] then path @ ''.txt''
         else if form \<in> set [''srt'', ''sub''] then path @ ''.'' @ form
         else path)"

section \<open>The file system, the operating system and the imported packages\<close>

text \<open>
  What the script sees of the disk. A path names
  \<^item> a regular file, with its name and its bytes (\<open>None\<close> when the file cannot be read);
  \<^item> a directory, with its name, whether it is a symbolic link to a directory, whether
    its entries can be listed, and its entries in the order the system lists them;
  \<^item> or something else that exists (a socket, a device node, a pipe), with its name and
    the bytes a read gives (\<open>None\<close> when it cannot be read).

  A symbolic link to a file stands as the file.
\<close>

datatype node =
    RegFile string "string option"
  | Directory string bool bool "node list"
  | Special string "string option"

fun node_name :: "node \<Rightarrow> string" where
  "node_name (RegFile name bytes) = name"
| "node_name (Directory name link listable entries) = name"
| "node_name (Special name bytes) = name"

fun is_dir :: "node \<Rightarrow> bool" where
  "is_dir (Directory name link listable entries) = True"
| "is_dir other = False"

text \<open>
  \<^verbatim>\<open>os.walk(top)\<close>, top-down, links not followed, errors ignored: a directory that
  cannot be listed gives nothing; a directory that can gives one triple (directory path,
  names of the entries that are directories, names of its other entries) and then the
  triples of each subdirectory that is not a link, in turn (\<open>walk_into\<close> goes through the
  entries for them).
\<close>

fun os_walk :: "(string \<Rightarrow> string \<Rightarrow> string) \<Rightarrow> string \<Rightarrow> bool \<Rightarrow> node list
                  \<Rightarrow> (string \<times> string list \<times> string list) list"
  and walk_into :: "(string \<Rightarrow> string \<Rightarrow> string) \<Rightarrow> string \<Rightarrow> node list
                  \<Rightarrow> (string \<times> string list \<times> string list) list" where
  "os_walk join top_dir listable entries =
     (if listable
      then (top_dir, map node_name (filter is_dir entries),
                     map node_name (filter (\<lambda>e. \<not> is_dir e) entries))
           # walk_into join top_dir entries
      else [])"
| "walk_into join top_dir [] = []"
| "walk_into join top_dir (Directory name link listable sub # entries) =
     (if link then [] else os_walk join (join top_dir name) listable sub)
     @ walk_into join top_dir entries"
| "walk_into join top_dir (RegFile name bytes # entries) = walk_into join top_dir entries"
| "walk_into join top_dir (Special name bytes # entries) = walk_into join top_dir entries"

text \<open>
  The collaborators outside the script. \<open>fs\<close> gives what a path names, \<open>None\<close> when
  nothing exists there. The functions of \<^verbatim>\<open>os.path\<close> and \<^verbatim>\<open>os\<close> that can raise
  return a result. \<open>default_log\<close> is the path \<^verbatim>\<open>f"{os.path.splitext(__file__)[0]}.log"\<close>.
  \<open>logging_basicConfig\<close> opens the log file it is given. \<open>chardet_detect\<close> is
  \<^verbatim>\<open>chardet.detect(bytes)["encoding"]\<close>, \<open>None\<close> when the detector finds no encoding.
  \<open>open_write path encoding lines\<close> is \<^verbatim>\<open>open(path, "wt", encoding=encoding)\<close>
  followed by \<^verbatim>\<open>writelines\<close>; it raises when the file cannot be opened or a line
  cannot be encoded.
\<close>

record env =
  fs :: "string \<Rightarrow> node option"
  os_path_join :: "string \<Rightarrow> string \<Rightarrow> string"
  os_path_basename :: "string \<Rightarrow> string"
  os_path_normpath :: "string \<Rightarrow> string"
  os_path_abspath :: "string \<Rightarrow> string result"
  os_path_getsize :: "string \<Rightarrow> nat result"
  os_remove :: "string \<Rightarrow> unit result"
  default_log :: string
  logging_basicConfig :: "string \<Rightarrow> unit result"
  chardet_detect :: "string \<Rightarrow> string option"
  open_write :: "string \<Rightarrow> string option \<Rightarrow> string list \<Rightarrow> unit result"

definition os_path_exists :: "env \<Rightarrow> string \<Rightarrow> bool" where
  "os_path_exists E path = (case fs E path of None \<Rightarrow> False | Some n \<Rightarrow> True)"

definition os_path_isfile :: "env \<Rightarrow> string \<Rightarrow> bool" where
  "os_path_isfile E path =
     (case fs E path of Some (RegFile name bytes) \<Rightarrow> True | _ \<Rightarrow> False)"

definition os_path_isdir :: "env \<Rightarrow> string \<Rightarrow> bool" where
  "os_path_isdir E path =
     (case fs E path of Some (Directory name link listable entries) \<Rightarrow> True | _ \<Rightarrow> False)"

definition walk :: "env \<Rightarrow> string \<Rightarrow> (string \<times> string list \<times> string list) list" where
  "walk E top_dir =
     (case fs E top_dir of
        Some (Directory name link listable entries) \<Rightarrow>
          os_walk (os_path_join E) top_dir listable entries
      | _ \<Rightarrow> [])"

text \<open>
  The package \<^verbatim>\<open>sublib\<close> is imported, not part of the script: its four classes, its
  format detector and the methods the script calls are parameters. \<open>'o\<close> is the type
  of its subtitle objects and \<open>'g\<close> the type of its general format. Every call may raise.
  A method that changes its object returns the changed object.
\<close>

datatype sub_class = MPlayer2 | SubRip | MicroDVD | TMPlayer

record ('o, 'g) sublib =
  sublib_detect :: "string \<Rightarrow> string option \<Rightarrow> string result"
  sublib_new :: "sub_class \<Rightarrow> string \<Rightarrow> string option \<Rightarrow> 'o result"
  get_general_format :: "'o \<Rightarrow> 'g result"
  set_from_general_format :: "'o \<Rightarrow> 'g \<Rightarrow> 'o result"
  content :: "'o \<Rightarrow> string list"

text \<open>
  The effects of a run that the properties below speak of: the files written (path, the
  \<^verbatim>\<open>encoding\<close> argument of \<^verbatim>\<open>open\<close>, and the lines), in order, and the lines
  printed on standard output. When opening or writing raises, nothing is recorded for
  that file. The messages given to the logger go to the log file alone and are left out;
  setting the logger up and closing it are kept, since they can raise.
\<close>

datatype out_line = Text string | ExcInfo exn

record world =
  files_written :: "(string \<times> string option \<times> string list) list"
  stdout :: "out_line list"

definition sbind :: "'a result \<Rightarrow> world \<Rightarrow> ('a \<Rightarrow> 'b result \<times> world)
                       \<Rightarrow> 'b result \<times> world" where
  "sbind r w f =
     (case r of Return x \<Rightarrow> f x | Raise e \<Rightarrow> (Raise e, w) | SystemExit m \<Rightarrow> (SystemExit m, w))"

definition newline :: string where
  "newline = [CHR 0x0A]"

section \<open>The functions of the script\<close>

subsection \<open>\<^verbatim>\<open>set_logger\<close> and \<^verbatim>\<open>end\<close>\<close>

datatype level = INFO | CRITICAL

definition set_logger :: "env \<Rightarrow> string \<Rightarrow> level \<Rightarrow> unit result" where
  "set_logger E file lvl =
     rbind (os_path_abspath E (os_path_normpath E file)) (\<lambda>file. logging_basicConfig E file)"

text \<open>
  \<^verbatim>\<open>end\<close> closes the log and removes the log file when it is empty.
\<close>

definition end_script :: "env \<Rightarrow> string \<Rightarrow> unit result" where
  "end_script E logfile =
     rbind (os_path_getsize E logfile)
       (\<lambda>size. if size = 0 then os_remove E logfile else Return ())"

subsection \<open>\<^verbatim>\<open>find_files\<close>\<close>

text \<open>
  \<^verbatim>\<open>files\<close> is assigned in the first \<^verbatim>\<open>if\<close>, assigned again in the second, and
  read by \<^verbatim>\<open>return\<close>: when neither test holds the name is unbound. \<^verbatim>\<open>files[0]\<close>
  raises on an empty walk.
\<close>

definition find_files :: "env \<Rightarrow> string \<Rightarrow> string list result" where
  "find_files E path =
     (let files = (if os_path_isfile E path then Some [path] else None)
      in if os_path_isdir E path then
           (case walk E path of
              [] \<Rightarrow> Raise IndexError
            | (dirpath, dirnames, filenames) # rest \<Rightarrow>
                Return (map (\<lambda>file. py_replace file file (path @ backslash @ file)) filenames))
         else (case files of None \<Rightarrow> Raise UnboundLocalError | Some fl \<Rightarrow> Return fl))"

subsection \<open>\<^verbatim>\<open>detect_encoding\<close>\<close>

definition detect_encoding :: "env \<Rightarrow> string \<Rightarrow> string option result" where
  "detect_encoding E file =
     (case fs E file of
        Some (RegFile name (Some bytes)) \<Rightarrow> Return (chardet_detect E bytes)
      | Some (Special name (Some bytes)) \<Rightarrow> Return (chardet_detect E bytes)
      | _ \<Rightarrow> Raise OSError)"

subsection \<open>\<^verbatim>\<open>get_subtitle\<close>\<close>

text \<open>
  The function returns an object of the package when the format is one of the four
  tags; otherwise no branch assigns and it returns its argument, the dictionary.
\<close>

datatype 'o py_subtitle = Obj 'o | Dict details

definition get_subtitle :: "('o, 'g) sublib \<Rightarrow> details \<Rightarrow> 'o py_subtitle result" where
  "get_subtitle L subtitle =
     (case d_format subtitle of
        None \<Rightarrow> Raise KeyError
      | Some form \<Rightarrow>
          (let path = d_path subtitle; encd = d_encoding subtitle
           in if form = ''mpl'' then rbind (sublib_new L MPlayer2 path encd) (\<lambda>s. Return (Obj s))
              else if form = ''srt'' then rbind (sublib_new L SubRip path encd) (\<lambda>s. Return (Obj s))
              else if form = ''sub'' then rbind (sublib_new L MicroDVD path encd) (\<lambda>s. Return (Obj s))
              else if form = ''tmp'' then rbind (sublib_new L TMPlayer path encd) (\<lambda>s. Return (Obj s))
              else Return (Dict subtitle)))"

subsection \<open>\<^verbatim>\<open>write_file\<close>\<close>

text \<open>
  A method call on the dictionary raises \<^verbatim>\<open>AttributeError\<close>. The statements run in
  the order of the source: the target object is built, the general format is read from
  the source object, loaded into the target, and only then the file is opened and written.
  The target object is built with the empty string \<open>[]\<close> as path and as encoding.
\<close>

definition write_file :: "env \<Rightarrow> ('o, 'g) sublib \<Rightarrow> 'o py_subtitle \<Rightarrow> details \<Rightarrow> string \<Rightarrow> world
                            \<Rightarrow> unit result \<times> world" where
  "write_file E L subtitle file form w =
     sbind (get_subtitle L \<lparr>d_path = [], d_encoding = Some [], d_format = Some form\<rparr>) w
       (\<lambda>new.
          sbind (case subtitle of
                   Obj s \<Rightarrow> get_general_format L s
                 | Dict d \<Rightarrow> Raise AttributeError) w
            (\<lambda>lines.
               sbind (case new of
                        Obj n \<Rightarrow> set_from_general_format L n lines
                      | Dict d \<Rightarrow> Raise AttributeError) w
                 (\<lambda>new'.
                    sbind (open_write E (d_path file) (d_encoding file)
                             (map (\<lambda>line. line @ newline) (content L new'))) w
                      (\<lambda>u.
                         (Return (),
                          w\<lparr>files_written := files_written w @
                               [(d_path file, d_encoding file,
                                 map (\<lambda>line. line @ newline) (content L new'))]\<rparr>)))))"

subsection \<open>\<^verbatim>\<open>main\<close>\<close>

text \<open>
  The namespace that \<^verbatim>\<open>argparse\<close> hands over: \<^verbatim>\<open>command\<close> is \<^verbatim>\<open>None\<close> without
  a subcommand, and then the namespace has no \<^verbatim>\<open>path\<close>; \<^verbatim>\<open>log\<close> is \<^verbatim>\<open>None\<close>
  without the flag; only \<^verbatim>\<open>convert\<close> has a \<^verbatim>\<open>form\<close>. A missing attribute is
  \<open>None\<close> in \<open>a_path\<close> and \<open>a_form\<close>.
\<close>

record arguments =
  a_command :: "string option"
  a_path :: "string option"
  a_log :: "string option"
  a_form :: "string option"

abbreviation convert_args :: "string \<Rightarrow> string option \<Rightarrow> string \<Rightarrow> arguments" where
  "convert_args path lg form \<equiv>
     \<lparr>a_command = Some ''convert'', a_path = Some path, a_log = lg, a_form = Some form\<rparr>"


text \<open>The first loop of the \<^verbatim>\<open>convert\<close> branch: one record per file found.\<close>

fun input_files_of :: "env \<Rightarrow> ('o, 'g) sublib \<Rightarrow> string list \<Rightarrow> details list result" where
  "input_files_of E L [] = Return []"
| "input_files_of E L (file # files) =
     rbind (detect_encoding E file) (\<lambda>encoding.
     rbind (detect_encoding E file) (\<lambda>encoding2.
     rbind (sublib_detect L file encoding2) (\<lambda>format.
     rbind (input_files_of E L files) (\<lambda>rest.
       Return (\<lparr>d_path = file, d_encoding = encoding, d_format = Some format\<rparr> # rest)))))"

text \<open>The second loop: the target path and the encoding of each input file.\<close>

definition output_files_of :: "details list \<Rightarrow> string \<Rightarrow> details list" where
  "output_files_of input_files form =
     map (\<lambda>file. \<lparr>d_path = get_new_path file form, d_encoding = d_encoding file,
                   d_format = None\<rparr>) input_files"

text \<open>The list comprehension that builds the source objects.\<close>

fun input_subtitles_of :: "('o, 'g) sublib \<Rightarrow> details list \<Rightarrow> 'o py_subtitle list result" where
  "input_subtitles_of L [] = Return []"
| "input_subtitles_of L (file # files) =
     rbind (get_subtitle L file) (\<lambda>s.
     rbind (input_subtitles_of L files) (\<lambda>rest. Return (s # rest)))"

text \<open>The last loop, over the pairs of \<^verbatim>\<open>zip\<close>; the first exception ends it.\<close>

fun write_files :: "env \<Rightarrow> ('o, 'g) sublib \<Rightarrow> ('o py_subtitle \<times> details) list \<Rightarrow> string \<Rightarrow> world
                     \<Rightarrow> unit result \<times> world" where
  "write_files E L [] form w = (Return (), w)"
| "write_files E L ((subtitle, file) # pairs) form w =
     (case write_file E L subtitle file form w of
        (Return u, w') \<Rightarrow> write_files E L pairs form w'
      | (Raise e, w') \<Rightarrow> (Raise e, w')
      | (SystemExit m, w') \<Rightarrow> (SystemExit m, w'))"

text \<open>The body of \<^verbatim>\<open>if command == "convert"\<close>.\<close>

definition convert :: "env \<Rightarrow> ('o, 'g) sublib \<Rightarrow> arguments \<Rightarrow> string \<Rightarrow> world
                         \<Rightarrow> unit result \<times> world" where
  "convert E L arguments path w =
     sbind (case a_form arguments of None \<Rightarrow> Raise AttributeError | Some f \<Rightarrow> Return f) w
       (\<lambda>form.
     sbind (find_files E path) w (\<lambda>files.
     sbind (input_files_of E L files) w (\<lambda>input_files.
     sbind (input_subtitles_of L input_files) w (\<lambda>input_subtitles.
       write_files E L (zip input_subtitles (output_files_of input_files form)) form w))))"

definition forms :: "(string \<times> string) list" where
  "forms = [(''mpl'', ''MPlayer2''), (''srt'', ''SubRip''), (''sub'', ''MicroDVD''),
            (''tmp'', ''TMPlayer''), (''undefined'', ''Unknown'')]"

text \<open>The loop of the \<^verbatim>\<open>detect\<close> branch.\<close>

fun detect_files :: "env \<Rightarrow> ('o, 'g) sublib \<Rightarrow> string list \<Rightarrow> world \<Rightarrow> unit result \<times> world" where
  "detect_files E L [] w = (Return (), w)"
| "detect_files E L (file # files) w =
     sbind (detect_encoding E file) w (\<lambda>encoding.
     sbind (sublib_detect L file encoding) w (\<lambda>form.
     sbind (case map_of forms form of None \<Rightarrow> Raise KeyError | Some name \<Rightarrow> Return name) w
       (\<lambda>name.
          detect_files E L files
            (w\<lparr>stdout := stdout w @
                 [Text (os_path_basename E file @ '' is in '' @ name @ '' format'')]\<rparr>))))"

text \<open>The body of \<^verbatim>\<open>elif command == "detect"\<close>.\<close>

definition detect :: "env \<Rightarrow> ('o, 'g) sublib \<Rightarrow> string \<Rightarrow> world \<Rightarrow> unit result \<times> world" where
  "detect E L path w = sbind (find_files E path) w (\<lambda>files. detect_files E L files w)"

text \<open>
  \<^verbatim>\<open>main\<close>: the path is made absolute, the logger is set up (on the given log file
  at level \<^verbatim>\<open>INFO\<close>, or on the default one at level \<^verbatim>\<open>CRITICAL\<close> when the flag is
  absent or empty), a path that does not exist ends the run through \<^verbatim>\<open>end\<close> and
  \<^verbatim>\<open>sys.exit\<close>, and otherwise the branch of the command runs, followed by \<^verbatim>\<open>end\<close>.
\<close>

definition main :: "env \<Rightarrow> ('o, 'g) sublib \<Rightarrow> arguments \<Rightarrow> world \<Rightarrow> unit result \<times> world" where
  "main E L arguments w =
     (let command = a_command arguments
      in sbind (case a_path arguments of None \<Rightarrow> Raise AttributeError | Some p \<Rightarrow> Return p) w
           (\<lambda>path.
         sbind (os_path_abspath E (os_path_normpath E path)) w (\<lambda>path.
         let (logfile, lvl) =
               (case a_log arguments of
                  None \<Rightarrow> (default_log E, CRITICAL)
                | Some l \<Rightarrow> if l \<noteq> [] then (l, INFO) else (default_log E, CRITICAL))
         in sbind (set_logger E logfile lvl) w (\<lambda>logger.
            if \<not> os_path_exists E path
            then sbind (end_script E logfile) w
                   (\<lambda>u. (SystemExit (''Path does not exists: '' @ path), w))
            else
              (case (if command = Some ''convert'' then convert E L arguments path w
                     else if command = Some ''detect'' then detect E L path w
                     else (Return (), w)) of
                 (Return u, w') \<Rightarrow> (end_script E logfile, w')
               | (Raise e, w') \<Rightarrow> (Raise e, w')
               | (SystemExit m, w') \<Rightarrow> (SystemExit m, w'))))))"

subsection \<open>The script as a process\<close>



section \<open>Files in a directory tree\<close>


section \<open>A small disk and a stand-in for the package\<close>

text \<open>
  A disk with a directory \<^verbatim>\<open>C:\subs\<close> holding the SubRip file \<^verbatim>\<open>a.srt\<close> and a
  subdirectory \<^verbatim>\<open>extra\<close> with \<^verbatim>\<open>b.srt\<close>; beside it a directory that cannot be
  listed, an empty file, a MicroDVD file with two stray bytes for which the detector
  finds no encoding, a file in no subtitle format and a device node. Nothing exists at
  \<^verbatim>\<open>C:\nothing\<close>, and the log file \<^verbatim>\<open>C:\nowhere\run.log\<close> cannot be opened.
\<close>

definition example_root :: string where
  "example_root = ''C:'' @ backslash @ ''subs''"

definition example_a :: string where
  "example_a = example_root @ backslash @ ''a.srt''"

definition example_extra :: string where
  "example_extra = example_root @ backslash @ ''extra''"

definition example_b :: string where
  "example_b = example_extra @ backslash @ ''b.srt''"

definition example_locked :: string where
  "example_locked = ''C:'' @ backslash @ ''locked''"

definition example_empty :: string where
  "example_empty = ''C:'' @ backslash @ ''empty.srt''"

definition example_odd :: string where
  "example_odd = ''C:'' @ backslash @ ''odd.sub''"

definition example_notes :: string where
  "example_notes = ''C:'' @ backslash @ ''notes.txt''"

definition example_device :: string where
  "example_device = ''C:'' @ backslash @ ''device''"

definition example_missing :: string where
  "example_missing = ''C:'' @ backslash @ ''nothing''"

definition example_log :: string where
  "example_log = ''C:'' @ backslash @ ''sublib_cli.log''"

definition example_bad_log :: string where
  "example_bad_log = ''C:'' @ backslash @ ''nowhere'' @ backslash @ ''run.log''"

definition srt_bytes :: string where
  "srt_bytes = ''1'' @ newline @ ''00:00:01,000 --> 00:00:02,000'' @ newline @ ''Hello'' @ newline"

definition odd_bytes :: string where
  "odd_bytes = ''{0}{25}Hi'' @ [CHR 0x81, CHR 0x8D]"

definition example_disk :: "(string \<times> node) list" where
  "example_disk =
     [(example_root,
         Directory ''subs'' False True
           [RegFile ''a.srt'' (Some srt_bytes),
            Directory ''extra'' False True [RegFile ''b.srt'' (Some srt_bytes)]]),
      (example_a, RegFile ''a.srt'' (Some srt_bytes)),
      (example_extra, Directory ''extra'' False True [RegFile ''b.srt'' (Some srt_bytes)]),
      (example_b, RegFile ''b.srt'' (Some srt_bytes)),
      (example_locked, Directory ''locked'' False False []),
      (example_empty, RegFile ''empty.srt'' (Some [])),
      (example_odd, RegFile ''odd.sub'' (Some odd_bytes)),
      (example_notes, RegFile ''notes.txt'' (Some ''to do'')),
      (example_device, Special ''device'' None)]"

definition example_env :: env where
  "example_env =
     \<lparr>fs = map_of example_disk,
      os_path_join = (\<lambda>a b. a @ backslash @ b),
      os_path_basename = (\<lambda>p. rev (takeWhile (\<lambda>c. c \<noteq> CHR 0x5C) (rev p))),
      os_path_normpath = (\<lambda>p. p),
      os_path_abspath = (\<lambda>p. Return p),
      os_path_getsize = (\<lambda>p. Return 1),
      os_remove = (\<lambda>p. Return ()),
      default_log = example_log,
      logging_basicConfig = (\<lambda>p. if p = example_bad_log then Raise OSError else Return ()),
      chardet_detect = (\<lambda>bytes. if bytes = [] \<or> bytes = odd_bytes then None else Some ''ascii''),
      open_write = (\<lambda>p encoding lines. Return ())\<rparr>"

text \<open>
  The stand-in for the package detects the format from the bytes of the file (the SubRip
  text, the MicroDVD line, anything else is undefined); it keeps in an object its class,
  path, encoding and lines, and its general format is the list of lines.
\<close>

type_synonym example_obj = "sub_class \<times> string \<times> string option \<times> string list"

definition example_lib :: "(example_obj, string list) sublib" where
  "example_lib =
     \<lparr>sublib_detect = (\<lambda>file encoding.
         case fs example_env file of
           Some (RegFile name (Some bytes)) \<Rightarrow>
             Return (if bytes = srt_bytes then ''srt''
                     else if bytes = odd_bytes then ''sub''
                     else ''undefined'')
         | _ \<Rightarrow> Raise OSError),
      sublib_new = (\<lambda>c path encoding.
         Return (c, path, encoding, if path = [] then [] else [''text of '' @ path])),
      get_general_format = (\<lambda>(c, path, encoding, lines). Return lines),
      set_from_general_format = (\<lambda>(c, path, encoding, lines) g. Return (c, path, encoding, g)),
      content = (\<lambda>(c, path, encoding, lines). lines)\<rparr>"

definition empty_world :: world where
  "empty_world = \<lparr>files_written = [], stdout = []\<rparr>"

section \<open>Properties of the string operations\<close>

lemma rfind_from_none:
  "(\<And>j. j \<le> i \<Longrightarrow> \<not> occurs_at s sub j) \<Longrightarrow> rfind_from s sub i = - 1"
  by (induction i) auto

lemma rfind_from_last:
  "occurs_at s sub k \<Longrightarrow> k \<le> i \<Longrightarrow> (\<And>j. k < j \<Longrightarrow> j \<le> i \<Longrightarrow> \<not> occurs_at s sub j)
     \<Longrightarrow> rfind_from s sub i = int k"
proof (induction i)
  case 0
  then show ?case by simp
next
  case (Suc i)
  show ?case
  proof (cases "k = Suc i")
    case True
    with Suc.prems(1) show ?thesis by simp
  next
    case False
    with Suc.prems(2) have le: "k \<le> i" by simp
    have no: "\<not> occurs_at s sub (Suc i)"
      using Suc.prems(3) [of "Suc i"] False Suc.prems(2) by simp
    have "rfind_from s sub i = int k"
      using Suc.IH [OF Suc.prems(1) le] Suc.prems(3) by simp
    with no show ?thesis by simp
  qed
qed

lemma occurs_at_dot:
  "occurs_at s ''.'' j \<longleftrightarrow> j < length s \<and> s ! j = CHR ''.''"
proof (cases "j < length s")
  case True
  then have "drop j s = s ! j # drop (Suc j) s"
    by (simp add: Cons_nth_drop_Suc)
  then show ?thesis using True by (simp add: occurs_at_def)
next
  case False
  then show ?thesis by (simp add: occurs_at_def)
qed

lemma py_rfind_no_dot:
  assumes "CHR ''.'' \<notin> set s"
  shows "py_rfind s ''.'' = - 1"
  unfolding py_rfind_def
proof (rule rfind_from_none)
  fix j assume "j \<le> length s"
  show "\<not> occurs_at s ''.'' j"
  proof
    assume "occurs_at s ''.'' j"
    then have "j < length s" and "s ! j = CHR ''.''" by (simp_all add: occurs_at_dot)
    then have "CHR ''.'' \<in> set s" using nth_mem [of j s] by simp
    with assms show False by simp
  qed
qed

lemma py_rfind_last_dot:
  assumes "CHR ''.'' \<notin> set ext"
  shows "py_rfind (stem @ ''.'' @ ext) ''.'' = int (length stem)"
  unfolding py_rfind_def
proof (rule rfind_from_last)
  show "occurs_at (stem @ ''.'' @ ext) ''.'' (length stem)"
    by (simp add: occurs_at_dot)
  show "length stem \<le> length (stem @ ''.'' @ ext)" by simp
next
  fix j assume lt: "length stem < j" and le: "j \<le> length (stem @ ''.'' @ ext)"
  show "\<not> occurs_at (stem @ ''.'' @ ext) ''.'' j"
  proof
    assume "occurs_at (stem @ ''.'' @ ext) ''.'' j"
    then have j: "j < length (stem @ ''.'' @ ext)" and d: "(stem @ ''.'' @ ext) ! j = CHR ''.''"
      by (simp_all add: occurs_at_dot)
    define m where "m = j - Suc (length stem)"
    have jm: "j = Suc (length stem) + m" using lt by (simp add: m_def)
    have ml: "m < length ext" using j unfolding jm by simp
    have "(stem @ CHR ''.'' # ext) ! (Suc (length stem) + m) = ext ! m"
      by (simp add: nth_append)
    with d have "ext ! m = CHR ''.''" unfolding jm by simp
    then have "CHR ''.'' \<in> set ext" using nth_mem [OF ml] by simp
    with assms show False by simp
  qed
qed

lemma py_replace_self: "py_replace s s new = new"
proof (cases "s = []")
  case True
  then show ?thesis by (subst py_replace.simps) simp
next
  case False
  have e: "py_replace [] s new = []"
    using False by (subst py_replace.simps) simp
  have "occurs_at s s 0" by (simp add: occurs_at_def)
  with False e show ?thesis by (subst py_replace.simps) simp
qed

section \<open>The target path\<close>

text \<open>
  Claim C4. When the path of the input file ends in a dot followed by an extension (a
  suffix with no further dot), \<^verbatim>\<open>get_new_path\<close> replaces that extension: by
  \<^verbatim>\<open>.txt\<close> for the targets \<^verbatim>\<open>mpl\<close> and \<^verbatim>\<open>tmp\<close>, by \<^verbatim>\<open>.srt\<close> for \<^verbatim>\<open>srt\<close>
  and by \<^verbatim>\<open>.sub\<close> for \<^verbatim>\<open>sub\<close>.
\<close>

theorem get_new_path_replaces_extension:
  assumes "CHR ''.'' \<notin> set ext"
  shows "get_new_path \<lparr>d_path = stem @ ''.'' @ ext, d_encoding = e, d_format = f\<rparr> ''mpl''
           = stem @ ''.txt''
       \<and> get_new_path \<lparr>d_path = stem @ ''.'' @ ext, d_encoding = e, d_format = f\<rparr> ''tmp''
           = stem @ ''.txt''
       \<and> get_new_path \<lparr>d_path = stem @ ''.'' @ ext, d_encoding = e, d_format = f\<rparr> ''srt''
           = stem @ ''.srt''
       \<and> get_new_path \<lparr>d_path = stem @ ''.'' @ ext, d_encoding = e, d_format = f\<rparr> ''sub''
           = stem @ ''.sub''"
  using py_rfind_last_dot [OF assms, of stem]
  by (simp add: get_new_path_def py_slice_to_def)

theorem get_new_path_replaces_extension_witness:
  "CHR ''.'' \<notin> set ''sub''
   \<and> get_new_path \<lparr>d_path = ''film.cd1.sub'', d_encoding = None, d_format = Some ''sub''\<rparr> ''mpl''
       = ''film.cd1.txt''
   \<and> get_new_path \<lparr>d_path = ''film.cd1.sub'', d_encoding = None, d_format = Some ''sub''\<rparr> ''tmp''
       = ''film.cd1.txt''
   \<and> get_new_path \<lparr>d_path = ''film.cd1.sub'', d_encoding = None, d_format = Some ''sub''\<rparr> ''srt''
       = ''film.cd1.srt''
   \<and> get_new_path \<lparr>d_path = ''film.cd1.sub'', d_encoding = None, d_format = Some ''sub''\<rparr> ''sub''
       = ''film.cd1.sub''"
proof -
  have h: "CHR ''.'' \<notin> set ''sub''" by simp
  show ?thesis
    using h get_new_path_replaces_extension [OF h, of "''film.cd1''" None "Some ''sub''"]
    by simp
qed

text \<open>
  Claim C8. When the path of the input file contains no dot, \<^verbatim>\<open>rfind\<close> gives
  \<open>-1\<close> and the slice drops the last character: \<^verbatim>\<open>get_new_path\<close> returns the path
  without its final character, followed by the extension of the target format.
\<close>

theorem get_new_path_without_dot:
  assumes "CHR ''.'' \<notin> set p"
  shows "get_new_path \<lparr>d_path = p, d_encoding = e, d_format = f\<rparr> ''mpl'' = butlast p @ ''.txt''
       \<and> get_new_path \<lparr>d_path = p, d_encoding = e, d_format = f\<rparr> ''tmp'' = butlast p @ ''.txt''
       \<and> get_new_path \<lparr>d_path = p, d_encoding = e, d_format = f\<rparr> ''srt'' = butlast p @ ''.srt''
       \<and> get_new_path \<lparr>d_path = p, d_encoding = e, d_format = f\<rparr> ''sub'' = butlast p @ ''.sub''"
  using py_rfind_no_dot [OF assms]
  by (simp add: get_new_path_def py_slice_to_def butlast_conv_take nat_diff_distrib')

theorem get_new_path_without_dot_witness:
  "CHR ''.'' \<notin> set ''subtitles''
   \<and> get_new_path \<lparr>d_path = ''subtitles'', d_encoding = None, d_format = Some ''srt''\<rparr> ''mpl''
       = ''subtitle.txt''
   \<and> get_new_path \<lparr>d_path = ''subtitles'', d_encoding = None, d_format = Some ''srt''\<rparr> ''tmp''
       = ''subtitle.txt''
   \<and> get_new_path \<lparr>d_path = ''subtitles'', d_encoding = None, d_format = Some ''srt''\<rparr> ''srt''
       = ''subtitle.srt''
   \<and> get_new_path \<lparr>d_path = ''subtitles'', d_encoding = None, d_format = Some ''srt''\<rparr> ''sub''
       = ''subtitle.sub''"
proof -
  have h: "CHR ''.'' \<notin> set ''subtitles''" by simp
  show ?thesis
    using h get_new_path_without_dot [OF h, of None "Some ''srt''"]
    by simp
qed

section \<open>Properties of sequencing and of the loops\<close>

lemma sbind_simps [simp]:
  "sbind (Return x) w f = f x"
  "sbind (Raise e) w f = (Raise e, w)"
  "sbind (SystemExit m) w f = (SystemExit m, w)"
  by (simp_all add: sbind_def)

lemma rbind_eq_Return: "rbind r f = Return y \<longleftrightarrow> (\<exists>x. r = Return x \<and> f x = Return y)"
  by (cases r) simp_all


lemma get_subtitle_known:
  assumes "d_format file = Some tag"
    and "(tag, c) \<in> set [(''mpl'', MPlayer2), (''srt'', SubRip), (''sub'', MicroDVD), (''tmp'', TMPlayer)]"
  shows "get_subtitle L file =
           rbind (sublib_new L c (d_path file) (d_encoding file)) (\<lambda>s. Return (Obj s))"
  using assms by (auto simp: get_subtitle_def)



lemma write_file_effect:
  "write_file E L s out form w = (r, w') \<Longrightarrow>
     (r = Return () \<and> (\<exists>lines. w' = w\<lparr>files_written := files_written w @
                                         [(d_path out, d_encoding out, lines)]\<rparr>))
     \<or> (r \<noteq> Return () \<and> w' = w)"
  by (auto simp: write_file_def sbind_def split: result.splits py_subtitle.splits)

lemma get_new_path_path_only:
  "get_new_path d form = get_new_path \<lparr>d_path = d_path d, d_encoding = None, d_format = None\<rparr> form"
  by (simp add: get_new_path_def)

lemma input_files_of_spec:
  "input_files_of E L files = Return ds \<Longrightarrow>
   list_all2 (\<lambda>file d. d_path d = file \<and> detect_encoding E file = Return (d_encoding d)
                \<and> (\<exists>tag. d_format d = Some tag \<and> sublib_detect L file (d_encoding d) = Return tag))
     files ds"
proof (induction files arbitrary: ds)
  case Nil
  then show ?case by simp
next
  case (Cons f fs)
  from Cons.prems obtain enc fm rest where
    e: "detect_encoding E f = Return enc" and
    t: "sublib_detect L f enc = Return fm" and
    r: "input_files_of E L fs = Return rest" and
    d: "ds = \<lparr>d_path = f, d_encoding = enc, d_format = Some fm\<rparr> # rest"
    by (auto simp: rbind_eq_Return)
  from Cons.IH [OF r] e t d show ?case by simp
qed

lemma input_subtitles_of_spec:
  "input_subtitles_of L ds = Return ss \<Longrightarrow>
   list_all2 (\<lambda>d s. get_subtitle L d = Return s) ds ss"
proof (induction ds arbitrary: ss)
  case Nil
  then show ?case by simp
next
  case (Cons d ds)
  from Cons.prems obtain s rest where
    g: "get_subtitle L d = Return s" and
    r: "input_subtitles_of L ds = Return rest" and ss: "ss = s # rest"
    by (auto simp: rbind_eq_Return)
  from Cons.IH [OF r] g ss show ?case by simp
qed

lemma write_files_effect:
  "write_files E L pairs form w = (r, w') \<Longrightarrow>
     \<exists>ws. files_written w' = files_written w @ ws \<and> stdout w' = stdout w
        \<and> length ws \<le> length pairs
        \<and> list_all2 (\<lambda>pair wr. fst wr = d_path (snd pair) \<and> fst (snd wr) = d_encoding (snd pair))
             (take (length ws) pairs) ws
        \<and> (r = Return () \<longrightarrow> length ws = length pairs)"
proof (induction pairs arbitrary: w)
  case Nil
  then show ?case by simp
next
  case (Cons pair pairs)
  obtain s out where pair: "pair = (s, out)" by (cases pair)
  obtain r1 w1 where one: "write_file E L s out form w = (r1, w1)"
    by (cases "write_file E L s out form w") blast
  from write_file_effect [OF one] show ?case
  proof
    assume ok: "r1 = Return () \<and> (\<exists>lines. w1 = w\<lparr>files_written := files_written w @
                                         [(d_path out, d_encoding out, lines)]\<rparr>)"
    then obtain lines where w1: "w1 = w\<lparr>files_written := files_written w @
                                         [(d_path out, d_encoding out, lines)]\<rparr>" by blast
    from Cons.prems pair one ok have rest: "write_files E L pairs form w1 = (r, w')" by simp
    from Cons.IH [OF rest] obtain ws where
      ws: "files_written w' = files_written w1 @ ws" "stdout w' = stdout w1"
          "length ws \<le> length pairs"
          "list_all2 (\<lambda>pair wr. fst wr = d_path (snd pair) \<and> fst (snd wr) = d_encoding (snd pair))
             (take (length ws) pairs) ws"
          "r = Return () \<longrightarrow> length ws = length pairs" by blast
    show ?thesis
    proof (intro exI [of _ "(d_path out, d_encoding out, lines) # ws"] conjI)
      show "files_written w' = files_written w @ (d_path out, d_encoding out, lines) # ws"
        using ws(1) w1 by simp
      show "stdout w' = stdout w" using ws(2) w1 by simp
      show "length ((d_path out, d_encoding out, lines) # ws) \<le> length (pair # pairs)"
        using ws(3) by simp
      show "list_all2 (\<lambda>pair wr. fst wr = d_path (snd pair) \<and> fst (snd wr) = d_encoding (snd pair))
             (take (length ((d_path out, d_encoding out, lines) # ws)) (pair # pairs))
             ((d_path out, d_encoding out, lines) # ws)"
        using ws(4) pair by simp
      show "r = Return () \<longrightarrow> length ((d_path out, d_encoding out, lines) # ws) = length (pair # pairs)"
        using ws(5) by simp
    qed
  next
    assume bad: "r1 \<noteq> Return () \<and> w1 = w"
    with Cons.prems pair one have "r = r1 \<and> w' = w"
      by (cases r1) auto
    with bad show ?thesis by (intro exI [of _ "[]"]) simp
  qed
qed



lemma convert_cases:
  assumes "convert E L arguments path w = (r, w')"
  shows "(w' = w \<and> r \<noteq> Return ())
       \<or> (\<exists>form files ds ss. a_form arguments = Some form \<and> find_files E path = Return files
             \<and> input_files_of E L files = Return ds \<and> input_subtitles_of L ds = Return ss
             \<and> write_files E L (zip ss (output_files_of ds form)) form w = (r, w'))"
  using assms by (auto simp: convert_def sbind_def split: option.splits result.splits)

lemma main_cases:
  assumes "main E L arguments w = (r, w')"
  shows "(w' = w \<and> r \<noteq> Return ())
       \<or> (\<exists>path0 path r0. a_path arguments = Some path0
             \<and> os_path_abspath E (os_path_normpath E path0) = Return path
             \<and> os_path_exists E path
             \<and> (if a_command arguments = Some ''convert'' then convert E L arguments path w
                  else if a_command arguments = Some ''detect'' then detect E L path w
                  else (Return (), w)) = (r0, w')
             \<and> (r = Return () \<longrightarrow> r0 = Return ()))"
proof (cases "a_path arguments")
  case None
  with assms show ?thesis by (auto simp: main_def)
next
  case (Some path0)
  show ?thesis
  proof (cases "os_path_abspath E (os_path_normpath E path0)")
    case (Return path)
    obtain logfile lvl where lg:
      "(case a_log arguments of
                  None \<Rightarrow> (default_log E, CRITICAL)
                | Some l \<Rightarrow> if l \<noteq> [] then (l, INFO) else (default_log E, CRITICAL)) = (logfile, lvl)"
      by (cases "(case a_log arguments of
                  None \<Rightarrow> (default_log E, CRITICAL)
                | Some l \<Rightarrow> if l \<noteq> [] then (l, INFO) else (default_log E, CRITICAL))") blast
    show ?thesis
    proof (cases "set_logger E logfile lvl")
      case (Return u)
      show ?thesis
      proof (cases "os_path_exists E path")
        case False
        with assms Some \<open>os_path_abspath E (os_path_normpath E path0) = Return path\<close> lg Return
        have "w' = w \<and> r \<noteq> Return ()"
          by (cases "end_script E logfile") (auto simp: main_def)
        then show ?thesis by blast
      next
        case True
        let ?branch = "if a_command arguments = Some ''convert'' then convert E L arguments path w
                  else if a_command arguments = Some ''detect'' then detect E L path w
                  else (Return (), w)"
        obtain r0 w0 where b: "?branch = (r0, w0)" by (cases ?branch) blast
        from assms Some \<open>os_path_abspath E (os_path_normpath E path0) = Return path\<close> lg Return True
        have m: "(case ?branch of
                 (Return u, w') \<Rightarrow> (end_script E logfile, w')
               | (Raise e, w') \<Rightarrow> (Raise e, w')
               | (SystemExit m, w') \<Rightarrow> (SystemExit m, w')) = (r, w')"
          by (simp add: main_def Let_def split del: if_split)
        have "w0 = w' \<and> (r = Return () \<longrightarrow> r0 = Return ())"
          using m unfolding b by (cases r0) auto
        with Some \<open>os_path_abspath E (os_path_normpath E path0) = Return path\<close> True b
        show ?thesis by blast
      qed
    next
      case (Raise e)
      with assms Some \<open>os_path_abspath E (os_path_normpath E path0) = Return path\<close> lg
      show ?thesis by (auto simp: main_def)
    next
      case (SystemExit m)
      with assms Some \<open>os_path_abspath E (os_path_normpath E path0) = Return path\<close> lg
      show ?thesis by (auto simp: main_def)
    qed
  next
    case (Raise e)
    with assms Some show ?thesis by (auto simp: main_def)
  next
    case (SystemExit m)
    with assms Some show ?thesis by (auto simp: main_def)
  qed
qed

lemma convert_effect:
  assumes c: "convert E L arguments path w = (r, w')"
    and f: "find_files E path = Return files"
    and fm: "a_form arguments = Some form"
  shows "\<exists>ws. files_written w' = files_written w @ ws \<and> stdout w' = stdout w
        \<and> length ws \<le> length files
        \<and> (r = Return () \<longrightarrow> length ws = length files)
        \<and> list_all2 (\<lambda>file wr.
               fst wr = get_new_path \<lparr>d_path = file, d_encoding = None, d_format = None\<rparr> form
             \<and> detect_encoding E file = Return (fst (snd wr)))
             (take (length ws) files) ws"
  using convert_cases [OF c]
proof
  assume "w' = w \<and> r \<noteq> Return ()"
  then show ?thesis by (intro exI [of _ "[]"]) simp
next
  assume "\<exists>form files ds ss. a_form arguments = Some form \<and> find_files E path = Return files
             \<and> input_files_of E L files = Return ds \<and> input_subtitles_of L ds = Return ss
             \<and> write_files E L (zip ss (output_files_of ds form)) form w = (r, w')"
  with f fm obtain ds ss where
    ds: "input_files_of E L files = Return ds" and
    ss: "input_subtitles_of L ds = Return ss" and
    wf: "write_files E L (zip ss (output_files_of ds form)) form w = (r, w')" by auto
  let ?pairs = "zip ss (output_files_of ds form)"
  have lfd: "length files = length ds"
    using input_files_of_spec [OF ds] by (rule list_all2_lengthD)
  have lds: "length ds = length ss"
    using input_subtitles_of_spec [OF ss] by (rule list_all2_lengthD)
  have lp: "length ?pairs = length files"
    using lfd lds by (simp add: output_files_of_def)
  have rel: "list_all2 (\<lambda>file pair.
               d_path (snd pair) = get_new_path \<lparr>d_path = file, d_encoding = None, d_format = None\<rparr> form
             \<and> detect_encoding E file = Return (d_encoding (snd pair))) files ?pairs"
  proof (rule list_all2_all_nthI)
    show "length files = length ?pairs" using lp by simp
  next
    fix i assume i: "i < length files"
    then have ids: "i < length ds" and iss: "i < length ss" using lfd lds by simp_all
    have d: "d_path (ds ! i) = files ! i \<and> detect_encoding E (files ! i) = Return (d_encoding (ds ! i))"
      using list_all2_nthD [OF input_files_of_spec [OF ds] i] by simp
    have p: "snd (?pairs ! i) = \<lparr>d_path = get_new_path (ds ! i) form,
                d_encoding = d_encoding (ds ! i), d_format = None\<rparr>"
      using ids iss by (simp add: output_files_of_def)
    have g: "get_new_path (ds ! i) form
               = get_new_path \<lparr>d_path = files ! i, d_encoding = None, d_format = None\<rparr> form"
      using get_new_path_path_only [of "ds ! i" form] d by simp
    show "d_path (snd (?pairs ! i))
            = get_new_path \<lparr>d_path = files ! i, d_encoding = None, d_format = None\<rparr> form
          \<and> detect_encoding E (files ! i) = Return (d_encoding (snd (?pairs ! i)))"
      using p g d by simp
  qed
  from write_files_effect [OF wf] obtain ws where
    ws: "files_written w' = files_written w @ ws" "stdout w' = stdout w"
        "length ws \<le> length ?pairs"
        "list_all2 (\<lambda>pair wr. fst wr = d_path (snd pair) \<and> fst (snd wr) = d_encoding (snd pair))
             (take (length ws) ?pairs) ws"
        "r = Return () \<longrightarrow> length ws = length ?pairs" by blast
  have "list_all2 (\<lambda>file pair.
               d_path (snd pair) = get_new_path \<lparr>d_path = file, d_encoding = None, d_format = None\<rparr> form
             \<and> detect_encoding E file = Return (d_encoding (snd pair)))
          (take (length ws) files) (take (length ws) ?pairs)"
    using rel by (rule list_all2_takeI)
  from this ws(4)
  have "list_all2 (\<lambda>file wr.
               fst wr = get_new_path \<lparr>d_path = file, d_encoding = None, d_format = None\<rparr> form
             \<and> detect_encoding E file = Return (fst (snd wr)))
             (take (length ws) files) ws"
    by (rule list_all2_trans [rotated]) simp
  with ws(1) ws(2) ws(3) ws(5) lp show ?thesis by auto
qed

section \<open>The files found\<close>

lemma find_files_regular:
  "fs E path = Some (RegFile name bytes) \<Longrightarrow> find_files E path = Return [path]"
  by (simp add: find_files_def os_path_isfile_def os_path_isdir_def)

lemma isdir_dir:
  "fs E path = Some (Directory name link listable entries) \<Longrightarrow> os_path_isdir E path"
  by (simp add: os_path_isdir_def)

lemma walk_dir:
  "fs E path = Some (Directory name link listable entries) \<Longrightarrow>
   walk E path = os_walk (os_path_join E) path listable entries"
  by (simp add: walk_def)

lemma find_files_directory:
  assumes "fs E path = Some (Directory name link True entries)"
  shows "find_files E path =
     Return (map (\<lambda>e. path @ backslash @ node_name e) (filter (\<lambda>e. \<not> is_dir e) entries))"
proof -
  have "find_files E path =
     Return (map (\<lambda>file. py_replace file file (path @ backslash @ file))
                 (map node_name (filter (\<lambda>e. \<not> is_dir e) entries)))"
    unfolding find_files_def Let_def
    by (simp only: isdir_dir [OF assms] walk_dir [OF assms] os_walk.simps if_True list.case
        prod.case)
  then show ?thesis by (simp only: py_replace_self map_map comp_def)
qed


lemma find_files_special:
  "fs E path = Some (Special name bytes) \<Longrightarrow> find_files E path = Raise UnboundLocalError"
  by (simp add: find_files_def os_path_isfile_def os_path_isdir_def)

lemma find_files_missing:
  "fs E path = None \<Longrightarrow> find_files E path = Raise UnboundLocalError"
  by (simp add: find_files_def os_path_isfile_def os_path_isdir_def)

section \<open>The example disk\<close>

lemmas example_paths =
  example_root_def example_a_def example_extra_def example_b_def example_locked_def
  example_empty_def example_odd_def example_notes_def example_device_def example_missing_def
  example_log_def example_bad_log_def backslash_def

lemma example_fs_root:
  "fs example_env example_root =
     Some (Directory ''subs'' False True
             [RegFile ''a.srt'' (Some srt_bytes),
              Directory ''extra'' False True [RegFile ''b.srt'' (Some srt_bytes)]])"
  by (simp add: example_env_def example_disk_def)

lemma example_fs_a: "fs example_env example_a = Some (RegFile ''a.srt'' (Some srt_bytes))"
  by (simp add: example_env_def example_disk_def example_paths)


lemma example_fs_empty: "fs example_env example_empty = Some (RegFile ''empty.srt'' (Some []))"
  by (simp add: example_env_def example_disk_def example_paths)

lemma example_fs_odd: "fs example_env example_odd = Some (RegFile ''odd.sub'' (Some odd_bytes))"
  by (simp add: example_env_def example_disk_def example_paths)


lemma example_fs_device: "fs example_env example_device = Some (Special ''device'' None)"
  by (simp add: example_env_def example_disk_def example_paths)


lemma example_env_simps [simp]:
  "os_path_normpath example_env p = p"
  "os_path_abspath example_env p = Return p"
  "os_path_join example_env a b = a @ backslash @ b"
  "os_path_getsize example_env p = Return 1"
  "os_remove example_env p = Return ()"
  "default_log example_env = example_log"
  "open_write example_env p e ls = Return ()"
  "logging_basicConfig example_env p = (if p = example_bad_log then Raise OSError else Return ())"
  "chardet_detect example_env bytes = (if bytes = [] \<or> bytes = odd_bytes then None else Some ''ascii'')"
  by (simp_all add: example_env_def)


lemma example_lib_simps [simp]:
  "sublib_new example_lib c path encoding =
     Return (c, path, encoding, if path = [] then [] else [''text of '' @ path])"
  "get_general_format example_lib (c, path, encoding, lines) = Return lines"
  "set_from_general_format example_lib (c, path, encoding, lines) g = Return (c, path, encoding, g)"
  "content example_lib (c, path, encoding, lines) = lines"
  by (simp_all add: example_lib_def)

lemma example_bytes_differ [simp]:
  "odd_bytes \<noteq> srt_bytes" "srt_bytes \<noteq> odd_bytes" "''to do'' \<noteq> srt_bytes"
  "''to do'' \<noteq> odd_bytes" "srt_bytes \<noteq> []" "odd_bytes \<noteq> []"
  "[] \<noteq> srt_bytes" "[] \<noteq> odd_bytes"
  by (simp_all add: srt_bytes_def odd_bytes_def)

lemma example_detect_a: "sublib_detect example_lib example_a encoding = Return ''srt''"
  by (simp add: example_lib_def example_fs_a)

lemma example_detect_odd: "sublib_detect example_lib example_odd encoding = Return ''sub''"
  by (simp add: example_lib_def example_fs_odd)


lemma example_detect_empty: "sublib_detect example_lib example_empty encoding = Return ''undefined''"
  by (simp add: example_lib_def example_fs_empty)

lemma example_encoding_a: "detect_encoding example_env example_a = Return (Some ''ascii'')"
  by (simp add: detect_encoding_def example_fs_a)

lemma example_encoding_odd: "detect_encoding example_env example_odd = Return None"
  by (simp add: detect_encoding_def example_fs_odd)

lemma example_encoding_empty: "detect_encoding example_env example_empty = Return None"
  by (simp add: detect_encoding_def example_fs_empty)


lemma example_find_root: "find_files example_env example_root = Return [example_a]"
  by (simp add: find_files_directory [OF example_fs_root] example_a_def)

lemma example_log_ok: "set_logger example_env example_log lvl = Return ()"
  by (simp add: set_logger_def example_paths)

lemma example_end_ok: "end_script example_env logfile = Return ()"
  by (simp add: end_script_def)

lemma example_exists_root: "os_path_exists example_env example_root"
  by (simp add: os_path_exists_def example_fs_root)

lemma example_nonempty [simp]:
  "example_a \<noteq> []" "example_odd \<noteq> []" "example_notes \<noteq> []" "example_empty \<noteq> []"
  by (simp_all add: example_paths)


lemma example_convert_run:
  "main example_env example_lib (convert_args example_root None ''tmp'') empty_world
     = (Return (),
        \<lparr>files_written =
           [(get_new_path \<lparr>d_path = example_a, d_encoding = None, d_format = None\<rparr> ''tmp'',
             Some ''ascii'', [''text of '' @ example_a @ newline])],
         stdout = []\<rparr>)"
  by (simp add: main_def convert_def example_log_ok example_end_ok example_exists_root
      example_find_root example_encoding_a example_detect_a output_files_of_def
      get_subtitle_def write_file_def empty_world_def
      get_new_path_path_only [of "\<lparr>d_path = example_a, d_encoding = Some ''ascii'', d_format = Some ''srt''\<rparr>"])

section \<open>The runs of \<^verbatim>\<open>main\<close>\<close>


lemma main_convert_effect:
  assumes m: "main E L arguments w = (r, w')"
    and c: "a_command arguments = Some ''convert''"
    and p: "a_path arguments = Some path0"
    and a: "os_path_abspath E (os_path_normpath E path0) = Return path"
    and fm: "a_form arguments = Some form"
    and f: "find_files E path = Return files"
  shows "\<exists>ws. files_written w' = files_written w @ ws \<and> stdout w' = stdout w
        \<and> length ws \<le> length files
        \<and> (r = Return () \<longrightarrow> length ws = length files)
        \<and> (\<forall>i<length ws.
               fst (ws ! i) = get_new_path \<lparr>d_path = files ! i, d_encoding = None, d_format = None\<rparr> form
             \<and> detect_encoding E (files ! i) = Return (fst (snd (ws ! i))))"
  using main_cases [OF m]
proof
  assume "w' = w \<and> r \<noteq> Return ()"
  then show ?thesis by (intro exI [of _ "[]"]) simp
next
  assume "\<exists>path0 path r0. a_path arguments = Some path0
             \<and> os_path_abspath E (os_path_normpath E path0) = Return path
             \<and> os_path_exists E path
             \<and> (if a_command arguments = Some ''convert'' then convert E L arguments path w
                  else if a_command arguments = Some ''detect'' then detect E L path w
                  else (Return (), w)) = (r0, w')
             \<and> (r = Return () \<longrightarrow> r0 = Return ())"
  with c p a obtain r0 where
    b: "convert E L arguments path w = (r0, w')" and r0: "r = Return () \<longrightarrow> r0 = Return ()"
    by auto
  from convert_effect [OF b f fm] obtain ws where
    ws: "files_written w' = files_written w @ ws" "stdout w' = stdout w"
        "length ws \<le> length files" "r0 = Return () \<longrightarrow> length ws = length files"
        "list_all2 (\<lambda>file wr.
               fst wr = get_new_path \<lparr>d_path = file, d_encoding = None, d_format = None\<rparr> form
             \<and> detect_encoding E file = Return (fst (snd wr)))
             (take (length ws) files) ws" by blast
  have each: "fst (ws ! i) = get_new_path \<lparr>d_path = files ! i, d_encoding = None, d_format = None\<rparr> form
             \<and> detect_encoding E (files ! i) = Return (fst (snd (ws ! i)))" if i: "i < length ws" for i
    using list_all2_nthD2 [OF ws(5) i] i by simp
  show ?thesis
  proof (intro exI [of _ ws] conjI)
    show "files_written w' = files_written w @ ws" by (rule ws(1))
    show "stdout w' = stdout w" by (rule ws(2))
    show "length ws \<le> length files" by (rule ws(3))
    show "r = Return () \<longrightarrow> length ws = length files" using r0 ws(4) by simp
    show "\<forall>i<length ws.
               fst (ws ! i) = get_new_path \<lparr>d_path = files ! i, d_encoding = None, d_format = None\<rparr> form
             \<and> detect_encoding E (files ! i) = Return (fst (snd (ws ! i)))"
      using each by blast
  qed
qed







text \<open>
  Claim C10. \<^verbatim>\<open>find_files\<close> returns a list only when its argument is a regular file
  or a directory; for a path that exists and is neither, it raises
  \<^verbatim>\<open>UnboundLocalError\<close>, because \<^verbatim>\<open>files\<close> was never assigned.
\<close>

theorem find_files_defined_only_for_file_or_directory:
  "(\<forall>files. find_files E path = Return files \<longrightarrow> os_path_isfile E path \<or> os_path_isdir E path)
   \<and> (os_path_exists E path \<and> \<not> os_path_isfile E path \<and> \<not> os_path_isdir E path
        \<longrightarrow> find_files E path = Raise UnboundLocalError)"
proof (cases "fs E path")
  case None
  then show ?thesis
    by (simp add: find_files_missing os_path_exists_def)
next
  case (Some n)
  then show ?thesis
  proof (cases n)
    case (RegFile name bytes)
    with Some show ?thesis by (simp add: os_path_isfile_def)
  next
    case (Directory name link listable entries)
    with Some show ?thesis by (simp add: os_path_isdir_def)
  next
    case (Special name bytes)
    with Some show ?thesis by (simp add: find_files_special)
  qed
qed

theorem find_files_defined_only_for_file_or_directory_witness:
  "(find_files example_env example_root = Return [example_a]
     \<and> (os_path_isfile example_env example_root \<or> os_path_isdir example_env example_root))
   \<and> (os_path_exists example_env example_device \<and> \<not> os_path_isfile example_env example_device
       \<and> \<not> os_path_isdir example_env example_device
       \<and> find_files example_env example_device = Raise UnboundLocalError)"
proof -
  have r: "find_files example_env example_root = Return [example_a]"
    by (rule example_find_root)
  have d: "os_path_exists example_env example_device \<and> \<not> os_path_isfile example_env example_device
       \<and> \<not> os_path_isdir example_env example_device"
    by (simp add: os_path_exists_def os_path_isfile_def os_path_isdir_def example_fs_device)
  from r find_files_defined_only_for_file_or_directory [of example_env example_root]
  have "os_path_isfile example_env example_root \<or> os_path_isdir example_env example_root"
    by blast
  moreover from d find_files_defined_only_for_file_or_directory [of example_env example_device]
  have "find_files example_env example_device = Raise UnboundLocalError"
    by blast
  ultimately show ?thesis using r d by blast
qed

lemma example_find_odd: "find_files example_env example_odd = Return [example_odd]"
  by (rule find_files_regular [OF example_fs_odd])


lemma example_exists_odd: "os_path_exists example_env example_odd"
  by (simp add: os_path_exists_def example_fs_odd)



lemma example_odd_run:
  "main example_env example_lib (convert_args example_odd None ''srt'') empty_world
     = (Return (),
        \<lparr>files_written =
           [(get_new_path \<lparr>d_path = example_odd, d_encoding = None, d_format = None\<rparr> ''srt'',
             None, [''text of '' @ example_odd @ newline])],
         stdout = []\<rparr>)"
  by (simp add: main_def convert_def example_log_ok example_end_ok example_exists_odd
      example_find_odd example_encoding_odd example_detect_odd output_files_of_def
      get_subtitle_def write_file_def empty_world_def
      get_new_path_path_only [of "\<lparr>d_path = example_odd, d_encoding = None, d_format = Some ''sub''\<rparr>"])


text \<open>
  Claim C9. In every \<^verbatim>\<open>convert\<close> run, the files written are, in order, those of the
  first files found: the \<open>i\<close>-th file written has the path that \<^verbatim>\<open>get_new_path\<close>
  derives from the \<open>i\<close>-th file found, and the \<^verbatim>\<open>encoding\<close> argument of the
  \<^verbatim>\<open>open\<close> that writes it is exactly what \<^verbatim>\<open>detect_encoding\<close> returns for that
  source file; a run that returns has written one file for every file found.
\<close>

theorem output_written_with_detected_encoding:
  assumes "main E L arguments w = (r, w')"
    and "a_command arguments = Some ''convert''"
    and "a_path arguments = Some path0"
    and "os_path_abspath E (os_path_normpath E path0) = Return path"
    and "a_form arguments = Some form"
    and "find_files E path = Return files"
  shows "\<exists>ws. files_written w' = files_written w @ ws
        \<and> length ws \<le> length files
        \<and> (r = Return () \<longrightarrow> length ws = length files)
        \<and> (\<forall>i<length ws.
               fst (ws ! i) = get_new_path \<lparr>d_path = files ! i, d_encoding = None, d_format = None\<rparr> form
             \<and> detect_encoding E (files ! i) = Return (fst (snd (ws ! i))))"
  using main_convert_effect [OF assms] by blast

theorem output_written_with_detected_encoding_witness:
  "main example_env example_lib (convert_args example_root None ''tmp'') empty_world
     = (Return (),
        \<lparr>files_written =
           [(get_new_path \<lparr>d_path = example_a, d_encoding = None, d_format = None\<rparr> ''tmp'',
             Some ''ascii'', [''text of '' @ example_a @ newline])],
         stdout = []\<rparr>)
   \<and> find_files example_env example_root = Return [example_a]
   \<and> detect_encoding example_env example_a = Return (Some ''ascii'')
   \<and> (\<exists>ws. files_written
               \<lparr>files_written =
                  [(get_new_path \<lparr>d_path = example_a, d_encoding = None, d_format = None\<rparr> ''tmp'',
                    Some ''ascii'', [''text of '' @ example_a @ newline])],
                stdout = []\<rparr>
             = files_written empty_world @ ws
        \<and> length ws \<le> length [example_a]
        \<and> (Return () = Return () \<longrightarrow> length ws = length [example_a])
        \<and> (\<forall>i<length ws.
               fst (ws ! i) = get_new_path \<lparr>d_path = [example_a] ! i, d_encoding = None,
                                           d_format = None\<rparr> ''tmp''
             \<and> detect_encoding example_env ([example_a] ! i) = Return (fst (snd (ws ! i)))))"
proof -
  have c: "a_command (convert_args example_root None ''tmp'') = Some ''convert''" by simp
  have p: "a_path (convert_args example_root None ''tmp'') = Some example_root" by simp
  have a: "os_path_abspath example_env (os_path_normpath example_env example_root) = Return example_root"
    by simp
  have fm: "a_form (convert_args example_root None ''tmp'') = Some ''tmp''" by simp
  note t = output_written_with_detected_encoding [OF example_convert_run c p a fm example_find_root]
  show ?thesis
    by (intro conjI) (rule example_convert_run example_find_root example_encoding_a t)+
qed

text \<open>
  Claim C6 does not hold as stated: the script has no fallback. For the empty file of the
  example disk the detector finds no encoding, and the record that \<^verbatim>\<open>main\<close> builds
  for it, after handing \<^verbatim>\<open>None\<close> to \<^verbatim>\<open>sublib.detect\<close>, carries \<^verbatim>\<open>None\<close> as its
  encoding, as does the record of its output file.
\<close>

theorem undetected_encoding_kept:
  "detect_encoding example_env example_empty = Return None
   \<and> input_files_of example_env example_lib [example_empty]
       = Return [\<lparr>d_path = example_empty, d_encoding = None, d_format = Some ''undefined''\<rparr>]
   \<and> map d_encoding
         (output_files_of
            [\<lparr>d_path = example_empty, d_encoding = None, d_format = Some ''undefined''\<rparr>] ''srt'')
       = [None]"
  by (simp add: example_encoding_empty example_detect_empty output_files_of_def)

text \<open>
  Claim C6, amended. For a file whose encoding detection returns \<^verbatim>\<open>None\<close> the
  program applies no fallback: \<^verbatim>\<open>main\<close> calls \<^verbatim>\<open>sublib.detect\<close> with \<^verbatim>\<open>None\<close>
  and records \<^verbatim>\<open>None\<close> as the encoding of the file, and whenever a \<^verbatim>\<open>convert\<close>
  run writes the output of such a file, the \<^verbatim>\<open>encoding\<close> argument of the
  \<^verbatim>\<open>open\<close> that writes it is \<^verbatim>\<open>None\<close>.
\<close>

theorem undetected_encoding_passed_on:
  assumes "main E L arguments w = (r, w')"
    and "a_command arguments = Some ''convert''"
    and "a_path arguments = Some path0"
    and "os_path_abspath E (os_path_normpath E path0) = Return path"
    and "a_form arguments = Some form"
    and "find_files E path = Return files"
  shows "(\<forall>file tag. detect_encoding E file = Return None \<longrightarrow>
                     sublib_detect L file None = Return tag \<longrightarrow>
            input_files_of E L [file]
              = Return [\<lparr>d_path = file, d_encoding = None, d_format = Some tag\<rparr>])
       \<and> (\<exists>ws. files_written w' = files_written w @ ws
             \<and> length ws \<le> length files
             \<and> (r = Return () \<longrightarrow> length ws = length files)
             \<and> (\<forall>i<length ws. detect_encoding E (files ! i) = Return None \<longrightarrow>
                                 fst (snd (ws ! i)) = None))"
proof -
  from main_convert_effect [OF assms] obtain ws where
    ws: "files_written w' = files_written w @ ws" "length ws \<le> length files"
        "r = Return () \<longrightarrow> length ws = length files"
        "\<forall>i<length ws.
               fst (ws ! i) = get_new_path \<lparr>d_path = files ! i, d_encoding = None, d_format = None\<rparr> form
             \<and> detect_encoding E (files ! i) = Return (fst (snd (ws ! i)))" by blast
  have "\<forall>i<length ws. detect_encoding E (files ! i) = Return None \<longrightarrow> fst (snd (ws ! i)) = None"
    using ws(4) by auto
  with ws(1) ws(2) ws(3)
  have "\<exists>ws. files_written w' = files_written w @ ws
             \<and> length ws \<le> length files
             \<and> (r = Return () \<longrightarrow> length ws = length files)
             \<and> (\<forall>i<length ws. detect_encoding E (files ! i) = Return None \<longrightarrow>
                                 fst (snd (ws ! i)) = None)" by blast
  moreover have "\<forall>file tag. detect_encoding E file = Return None \<longrightarrow>
                     sublib_detect L file None = Return tag \<longrightarrow>
            input_files_of E L [file]
              = Return [\<lparr>d_path = file, d_encoding = None, d_format = Some tag\<rparr>]"
    by simp
  ultimately show ?thesis by blast
qed

theorem undetected_encoding_passed_on_witness:
  "main example_env example_lib (convert_args example_odd None ''srt'') empty_world
     = (Return (),
        \<lparr>files_written =
           [(get_new_path \<lparr>d_path = example_odd, d_encoding = None, d_format = None\<rparr> ''srt'',
             None, [''text of '' @ example_odd @ newline])],
         stdout = []\<rparr>)
   \<and> find_files example_env example_odd = Return [example_odd]
   \<and> detect_encoding example_env example_odd = Return None
   \<and> sublib_detect example_lib example_odd None = Return ''sub''
   \<and> input_files_of example_env example_lib [example_odd]
       = Return [\<lparr>d_path = example_odd, d_encoding = None, d_format = Some ''sub''\<rparr>]
   \<and> (\<exists>ws. files_written
               \<lparr>files_written =
                  [(get_new_path \<lparr>d_path = example_odd, d_encoding = None, d_format = None\<rparr> ''srt'',
                    None, [''text of '' @ example_odd @ newline])],
                stdout = []\<rparr>
             = files_written empty_world @ ws
        \<and> length ws = 1
        \<and> fst (snd (ws ! 0)) = None)"
proof -
  have c: "a_command (convert_args example_odd None ''srt'') = Some ''convert''" by simp
  have p: "a_path (convert_args example_odd None ''srt'') = Some example_odd" by simp
  have a: "os_path_abspath example_env (os_path_normpath example_env example_odd) = Return example_odd"
    by simp
  have fm: "a_form (convert_args example_odd None ''srt'') = Some ''srt''" by simp
  note t = undetected_encoding_passed_on [OF example_odd_run c p a fm example_find_odd]
  from t example_encoding_odd example_detect_odd
  have i: "input_files_of example_env example_lib [example_odd]
       = Return [\<lparr>d_path = example_odd, d_encoding = None, d_format = Some ''sub''\<rparr>]"
    by blast
  from t obtain ws where
    ws: "files_written
               \<lparr>files_written =
                  [(get_new_path \<lparr>d_path = example_odd, d_encoding = None, d_format = None\<rparr> ''srt'',
                    None, [''text of '' @ example_odd @ newline])],
                stdout = []\<rparr>
             = files_written empty_world @ ws"
        "length ws = length [example_odd]"
        "\<forall>i<length ws. detect_encoding example_env ([example_odd] ! i) = Return None \<longrightarrow>
                                 fst (snd (ws ! i)) = None"
    by blast
  from ws(2) ws(3) example_encoding_odd have "fst (snd (ws ! 0)) = None" by simp
  with ws(1) ws(2)
  have e: "\<exists>ws. files_written
               \<lparr>files_written =
                  [(get_new_path \<lparr>d_path = example_odd, d_encoding = None, d_format = None\<rparr> ''srt'',
                    None, [''text of '' @ example_odd @ newline])],
                stdout = []\<rparr>
             = files_written empty_world @ ws
        \<and> length ws = 1
        \<and> fst (snd (ws ! 0)) = None" by auto
  show ?thesis
    by (intro conjI) (rule example_odd_run example_find_odd example_encoding_odd
        example_detect_odd i e)+
qed







text \<open>
  Claim C3. For an input file with one of the four format tags and a requested target
  format, when the calls into the package return and the output file can be written:
  \<^verbatim>\<open>get_subtitle\<close> builds the source object with the class the tag selects
  (\<^verbatim>\<open>mpl\<close> \<^verbatim>\<open>MPlayer2\<close>, \<^verbatim>\<open>srt\<close> \<^verbatim>\<open>SubRip\<close>, \<^verbatim>\<open>sub\<close> \<^verbatim>\<open>MicroDVD\<close>,
  \<^verbatim>\<open>tmp\<close> \<^verbatim>\<open>TMPlayer\<close>) from the path and encoding of the file, \<^verbatim>\<open>write_file\<close>
  builds the target object with the class the requested tag selects, reads the general
  format from the source object, loads it into the target object, and writes the content
  lines of the target object, each followed by a newline, to the path that
  \<^verbatim>\<open>get_new_path\<close> derives, with the encoding of the file. A \<^verbatim>\<open>convert\<close> run on
  such a file does exactly this and returns.
\<close>

theorem known_format_conversion:
  assumes t: "(tag, c) \<in> set [(''mpl'', MPlayer2), (''srt'', SubRip), (''sub'', MicroDVD), (''tmp'', TMPlayer)]"
    and t': "(form, c') \<in> set [(''mpl'', MPlayer2), (''srt'', SubRip), (''sub'', MicroDVD), (''tmp'', TMPlayer)]"
    and src: "sublib_new L c path enc = Return src"
    and tgt: "sublib_new L c' [] (Some []) = Return tgt"
    and g: "get_general_format L src = Return g"
    and s: "set_from_general_format L tgt g = Return tgt'"
    and o: "open_write E (get_new_path \<lparr>d_path = path, d_encoding = enc, d_format = Some tag\<rparr> form) enc
              (map (\<lambda>line. line @ newline) (content L tgt')) = Return ()"
  shows "get_subtitle L \<lparr>d_path = path, d_encoding = enc, d_format = Some tag\<rparr> = Return (Obj src)
       \<and> get_subtitle L \<lparr>d_path = [], d_encoding = Some [], d_format = Some form\<rparr> = Return (Obj tgt)
       \<and> write_file E L (Obj src)
            \<lparr>d_path = get_new_path \<lparr>d_path = path, d_encoding = enc, d_format = Some tag\<rparr> form,
             d_encoding = enc, d_format = None\<rparr> form w
           = (Return (),
              w\<lparr>files_written := files_written w @
                   [(get_new_path \<lparr>d_path = path, d_encoding = enc, d_format = Some tag\<rparr> form, enc,
                     map (\<lambda>line. line @ newline) (content L tgt'))]\<rparr>)
       \<and> (a_command arguments = Some ''convert'' \<and> a_path arguments = Some path0
            \<and> a_form arguments = Some form
            \<and> os_path_abspath E (os_path_normpath E path0) = Return path
            \<and> fs E path = Some (RegFile name (Some bytes))
            \<and> chardet_detect E bytes = enc
            \<and> sublib_detect L path enc = Return tag
            \<and> (case a_log arguments of
                  None \<Rightarrow> (default_log E, CRITICAL)
                | Some l \<Rightarrow> if l \<noteq> [] then (l, INFO) else (default_log E, CRITICAL)) = (logfile, lvl)
            \<and> set_logger E logfile lvl = Return ()
            \<and> end_script E logfile = Return ()
          \<longrightarrow> main E L arguments w
              = (Return (),
                 w\<lparr>files_written := files_written w @
                      [(get_new_path \<lparr>d_path = path, d_encoding = enc, d_format = Some tag\<rparr> form, enc,
                        map (\<lambda>line. line @ newline) (content L tgt'))]\<rparr>))"
proof -
  let ?file = "\<lparr>d_path = path, d_encoding = enc, d_format = Some tag\<rparr>"
  let ?out = "\<lparr>d_path = get_new_path ?file form, d_encoding = enc, d_format = None\<rparr>"
  let ?w' = "w\<lparr>files_written := files_written w @
                   [(get_new_path ?file form, enc, map (\<lambda>line. line @ newline) (content L tgt'))]\<rparr>"
  have gs: "get_subtitle L ?file = Return (Obj src)"
    using get_subtitle_known [of ?file tag c L] t src by simp
  have gt: "get_subtitle L \<lparr>d_path = [], d_encoding = Some [], d_format = Some form\<rparr> = Return (Obj tgt)"
    using get_subtitle_known [of "\<lparr>d_path = [], d_encoding = Some [], d_format = Some form\<rparr>" form c' L]
      t' tgt by simp
  have wf: "write_file E L (Obj src) ?out form w = (Return (), ?w')"
    using gt g s o by (simp add: write_file_def)
  have run: "main E L arguments w = (Return (), ?w')"
    if c: "a_command arguments = Some ''convert''" and p: "a_path arguments = Some path0"
      and fm: "a_form arguments = Some form"
      and a: "os_path_abspath E (os_path_normpath E path0) = Return path"
      and f: "fs E path = Some (RegFile name (Some bytes))"
      and ch: "chardet_detect E bytes = enc"
      and d: "sublib_detect L path enc = Return tag"
      and lg: "(case a_log arguments of
                  None \<Rightarrow> (default_log E, CRITICAL)
                | Some l \<Rightarrow> if l \<noteq> [] then (l, INFO) else (default_log E, CRITICAL)) = (logfile, lvl)"
      and sl: "set_logger E logfile lvl = Return ()"
      and es: "end_script E logfile = Return ()"
  proof -
    have ex: "os_path_exists E path" using f by (simp add: os_path_exists_def)
    have de: "detect_encoding E path = Return enc" using f ch by (simp add: detect_encoding_def)
    have inp: "input_files_of E L [path] = Return [?file]" using de d by simp
    have subs: "input_subtitles_of L [?file] = Return [Obj src]" using gs by simp
    have outs: "output_files_of [?file] form = [?out]" by (simp add: output_files_of_def)
    have conv: "convert E L arguments path w = (Return (), ?w')"
      using fm find_files_regular [OF f] inp subs outs wf by (simp add: convert_def)
    show ?thesis
      using c p a lg sl ex conv es by (simp add: main_def)
  qed
  from gs gt wf run show ?thesis by blast
qed

theorem known_format_conversion_witness:
  "(''srt'', SubRip) \<in> set [(''mpl'', MPlayer2), (''srt'', SubRip), (''sub'', MicroDVD), (''tmp'', TMPlayer)]
   \<and> (''tmp'', TMPlayer) \<in> set [(''mpl'', MPlayer2), (''srt'', SubRip), (''sub'', MicroDVD), (''tmp'', TMPlayer)]
   \<and> sublib_new example_lib SubRip example_a (Some ''ascii'')
       = Return (SubRip, example_a, Some ''ascii'', [''text of '' @ example_a])
   \<and> sublib_new example_lib TMPlayer [] (Some []) = Return (TMPlayer, [], Some [], [])
   \<and> get_general_format example_lib (SubRip, example_a, Some ''ascii'', [''text of '' @ example_a])
       = Return [''text of '' @ example_a]
   \<and> set_from_general_format example_lib (TMPlayer, [], Some [], []) [''text of '' @ example_a]
       = Return (TMPlayer, [], Some [], [''text of '' @ example_a])
   \<and> fs example_env example_a = Some (RegFile ''a.srt'' (Some srt_bytes))
   \<and> chardet_detect example_env srt_bytes = Some ''ascii''
   \<and> sublib_detect example_lib example_a (Some ''ascii'') = Return ''srt''
   \<and> get_subtitle example_lib \<lparr>d_path = example_a, d_encoding = Some ''ascii'', d_format = Some ''srt''\<rparr>
       = Return (Obj (SubRip, example_a, Some ''ascii'', [''text of '' @ example_a]))
   \<and> main example_env example_lib (convert_args example_a None ''tmp'') empty_world
       = (Return (),
          empty_world\<lparr>files_written := files_written empty_world @
             [(get_new_path \<lparr>d_path = example_a, d_encoding = Some ''ascii'', d_format = Some ''srt''\<rparr>
                 ''tmp'',
               Some ''ascii'',
               map (\<lambda>line. line @ newline)
                 (content example_lib (TMPlayer, [], Some [], [''text of '' @ example_a])))]\<rparr>)"
proof -
  have t: "(''srt'', SubRip) \<in> set [(''mpl'', MPlayer2), (''srt'', SubRip), (''sub'', MicroDVD), (''tmp'', TMPlayer)]"
    by simp
  have t': "(''tmp'', TMPlayer) \<in> set [(''mpl'', MPlayer2), (''srt'', SubRip), (''sub'', MicroDVD), (''tmp'', TMPlayer)]"
    by simp
  have src: "sublib_new example_lib SubRip example_a (Some ''ascii'')
       = Return (SubRip, example_a, Some ''ascii'', [''text of '' @ example_a])" by simp
  have tgt: "sublib_new example_lib TMPlayer [] (Some []) = Return (TMPlayer, [], Some [], [])"
    by simp
  have g: "get_general_format example_lib (SubRip, example_a, Some ''ascii'', [''text of '' @ example_a])
       = Return [''text of '' @ example_a]" by simp
  have s: "set_from_general_format example_lib (TMPlayer, [], Some [], []) [''text of '' @ example_a]
       = Return (TMPlayer, [], Some [], [''text of '' @ example_a])" by simp
  have o: "open_write example_env
             (get_new_path \<lparr>d_path = example_a, d_encoding = Some ''ascii'', d_format = Some ''srt''\<rparr> ''tmp'')
             (Some ''ascii'')
             (map (\<lambda>line. line @ newline)
                (content example_lib (TMPlayer, [], Some [], [''text of '' @ example_a]))) = Return ()"
    by simp
  have ch: "chardet_detect example_env srt_bytes = Some ''ascii''"
    by simp
  have d: "sublib_detect example_lib example_a (Some ''ascii'') = Return ''srt''"
    by (rule example_detect_a)
  have hyp: "a_command (convert_args example_a None ''tmp'') = Some ''convert''
         \<and> a_path (convert_args example_a None ''tmp'') = Some example_a
         \<and> a_form (convert_args example_a None ''tmp'') = Some ''tmp''
         \<and> os_path_abspath example_env (os_path_normpath example_env example_a) = Return example_a
         \<and> fs example_env example_a = Some (RegFile ''a.srt'' (Some srt_bytes))
         \<and> chardet_detect example_env srt_bytes = Some ''ascii''
         \<and> sublib_detect example_lib example_a (Some ''ascii'') = Return ''srt''
         \<and> (case a_log (convert_args example_a None ''tmp'') of
               None \<Rightarrow> (default_log example_env, CRITICAL)
             | Some l \<Rightarrow> if l \<noteq> [] then (l, INFO) else (default_log example_env, CRITICAL))
             = (example_log, CRITICAL)
         \<and> set_logger example_env example_log CRITICAL = Return ()
         \<and> end_script example_env example_log = Return ()"
    using example_fs_a ch d example_log_ok example_end_ok by simp
  note k = known_format_conversion [OF t t' src tgt g s o,
             where arguments = "convert_args example_a None ''tmp''" and ?path0.0 = example_a
               and name = "''a.srt''" and bytes = srt_bytes and logfile = example_log
               and lvl = CRITICAL and w = empty_world]
  from k have gs: "get_subtitle example_lib
        \<lparr>d_path = example_a, d_encoding = Some ''ascii'', d_format = Some ''srt''\<rparr>
       = Return (Obj (SubRip, example_a, Some ''ascii'', [''text of '' @ example_a]))" by blast
  from k hyp have run: "main example_env example_lib (convert_args example_a None ''tmp'') empty_world
       = (Return (),
          empty_world\<lparr>files_written := files_written empty_world @
             [(get_new_path \<lparr>d_path = example_a, d_encoding = Some ''ascii'', d_format = Some ''srt''\<rparr>
                 ''tmp'',
               Some ''ascii'',
               map (\<lambda>line. line @ newline)
                 (content example_lib (TMPlayer, [], Some [], [''text of '' @ example_a])))]\<rparr>)"
    by blast
  show ?thesis
    by (intro conjI) (rule t t' src tgt g s example_fs_a ch d gs run)+
qed

end
